theory Spec2Isabelle
  imports Complex_Main "HOL-Library.Word"
begin

section \<open>JavaScript values read by the clients\<close>

text \<open>
  Both socket clients hand every textual frame to \<open>JSON.parse\<close> and then read a few
  properties of the result. A parsed value is one of the six JSON kinds; numbers are the
  finite values a double can hold, kept as rationals (the only test the code performs on a
  number is \<open>=== 0\<close>). \<open>JSON.parse\<close> itself is a platform function: the handlers
  below take it as a parameter \<open>parse\<close>, where \<open>None\<close> stands for the \<open>SyntaxError\<close>
  it throws on text that is not JSON.
\<close>

datatype json =
    JNull
  | JBool bool
  | JNum rat
  | JStr string
  | JArr "json list"
  | JObj "(string \<times> json) list"

text \<open>
  \<open>property v k\<close> is the property read \<open>v.k\<close> for the keys the clients use
  (\<open>type\<close>, \<open>tool\<close>, \<open>exit_code\<close>, \<open>done\<close>, \<open>error\<close>, \<open>progress\<close>, \<open>text\<close>):
  an own property of an object, \<open>undefined\<close> (here \<open>None\<close>) on a number, string, boolean
  or array. Reading a property of \<open>null\<close> throws a \<open>TypeError\<close>; every handler treats
  \<open>JNull\<close> in a branch of its own before it calls \<open>property\<close>. An object lists each
  of its keys once, as \<open>JSON.parse\<close> builds it.
\<close>

fun property :: "json \<Rightarrow> string \<Rightarrow> json option" where
  "property (JObj kvs) k = map_of kvs k"
| "property _ k = None"

type_synonym bytes = "8 word list"

text \<open>The payload of a \<open>MessageEvent\<close> of a WebSocket: binary (as \<open>ArrayBuffer\<close> or as
  \<open>Blob\<close>, by the socket's \<open>binaryType\<close>) or a string.\<close>

datatype ws_data = ArrayBuffer bytes | Blob bytes | Text string

datatype ready_state = CONNECTING | OPEN | CLOSING | CLOSED

section \<open>Session types (lib/terminal-types.ts)\<close>

datatype TerminalStatus = Running | Idle | Stopped | Error

datatype ToolType = Claude | Gemini | Codex | Generic

record TerminalSession =
  id_session :: string
  name :: string
  group :: string
  tool :: ToolType
  status :: TerminalStatus
  command :: string
  cwd :: string
  startedAt :: int
  createdAt :: "int option"

record TerminalGroup =
  id_group :: string
  label :: string
  color :: string
  sessions :: "TerminalSession list"
  collapsed :: "bool option"

section \<open>Terminal stream client (components/TerminalView.tsx)\<close>

text \<open>
  The calls the message handler makes on the emulator surface, oldest first:
  \<open>term.reset()\<close> and \<open>term.write(...)\<close> with bytes or with a string.
\<close>

datatype term_op = Reset | Write_bytes bytes | Write_text string


text \<open>
  The state the handler closes over: the flag \<open>dumpReceived\<close>, the surface (as the trace
  of calls made on it), the \<open>Blob\<close> reads started with \<open>data.arrayBuffer()\<close> whose promise
  has not resolved yet, and the calls made to \<open>onSessionStateRef.current\<close>
  (tool as read from the frame, \<open>mapTool\<close> being the identity, and the mapped status).
\<close>

record term_client =
  dumpReceived :: bool
  surface :: "term_op list"
  pending :: "bytes list"
  reported :: "(json option \<times> TerminalStatus) list"

definition term_init :: term_client where
  "term_init = \<lparr>dumpReceived = False, surface = [], pending = [], reported = []\<rparr>"

text \<open>\<open>if (!dumpReceived) { term.reset(); dumpReceived = true; }\<close>\<close>

definition reset_once :: "term_client \<Rightarrow> term_client" where
  "reset_once c =
     (if dumpReceived c then c
      else c\<lparr>surface := surface c @ [Reset], dumpReceived := True\<rparr>)"

definition term_write :: "term_op \<Rightarrow> term_client \<Rightarrow> term_client" where
  "term_write w c = c\<lparr>surface := surface c @ [w]\<rparr>"

text \<open>
  The status expression of line 176:
  \<open>msg.type === "running" ? "running" : msg.exit_code === 0 ? "stopped" : "error"\<close>.
\<close>

definition status_of :: "json \<Rightarrow> TerminalStatus" where
  "status_of msg =
     (if property msg ''type'' = Some (JStr ''running'') then Running
      else if property msg ''exit_code'' = Some (JNum 0) then Stopped
      else Error)"

text \<open>
  The test of the \<open>try\<close> block: the text parses, reading \<open>msg.type\<close> does not throw, and
  the type is \<open>running\<close> or \<open>exited\<close>. A \<open>SyntaxError\<close> of the parse and the
  \<open>TypeError\<close> of \<open>null.type\<close> are both caught and fall through to the raw-text path.
\<close>

definition session_state :: "(string \<Rightarrow> json option) \<Rightarrow> string \<Rightarrow> json option" where
  "session_state parse s =
     (case parse s of
        None \<Rightarrow> None
      | Some JNull \<Rightarrow> None
      | Some msg \<Rightarrow>
          (if property msg ''type'' = Some (JStr ''running'') \<or> property msg ''type'' = Some (JStr ''exited'')
           then Some msg else None))"

text \<open>
  \<open>ws.onmessage\<close>. \<open>has_cb\<close> says whether \<open>onSessionStateRef.current\<close> is defined
  (the call is \<open>?.(...)\<close>); the callback is the registry's \<open>setSessionState\<close>, a state
  setter that does not throw. The \<open>Blob\<close> branch only starts the read: reset and write
  are in the \<open>then\<close> callback, \<open>blob_read\<close> below.
\<close>

definition onmessage ::
  "(string \<Rightarrow> json option) \<Rightarrow> bool \<Rightarrow> term_client \<Rightarrow> ws_data \<Rightarrow> term_client" where
  "onmessage parse has_cb c data =
     (case data of
        ArrayBuffer b \<Rightarrow> term_write (Write_bytes b) (reset_once c)
      | Blob b \<Rightarrow> c\<lparr>pending := pending c @ [b]\<rparr>
      | Text s \<Rightarrow>
          (case session_state parse s of
             Some msg \<Rightarrow>
               (if has_cb then c\<lparr>reported := reported c @ [(property msg ''tool'', status_of msg)]\<rparr>
                else c)
           | None \<Rightarrow> term_write (Write_text s) (reset_once c)))"

text \<open>The \<open>then\<close> callback of the \<open>k\<close>-th read still pending (a promise resolves once).\<close>

definition blob_read :: "term_client \<Rightarrow> nat \<Rightarrow> term_client" where
  "blob_read c k =
     (if k < length (pending c)
      then term_write (Write_bytes (pending c ! k))
             (reset_once (c\<lparr>pending := take k (pending c) @ drop (Suc k) (pending c)\<rparr>))
      else c)"





subsection \<open>Geometry: \<open>sendResize\<close> and \<open>fitAndSendResize\<close>\<close>

text \<open>
  \<open>term.cols\<close> and \<open>term.rows\<close> of the emulator. \<open>FitAddon.fit()\<close> belongs to the
  xterm library: it is the parameter \<open>fit\<close>, which gives the emulator after the fit, or
  \<open>None\<close> when it throws (both callers catch and ignore the exception).
\<close>

record geometry =
  cols :: int
  rows :: int

text \<open>What a client puts on the channel: the resize control frame
  \<open>JSON.stringify({type: "resize", cols, rows})\<close>, or keystroke data.\<close>

datatype ws_out = Resize int int | Keys string

definition sendResize ::
  "(geometry \<Rightarrow> geometry option) \<Rightarrow> ready_state \<Rightarrow> geometry \<Rightarrow> geometry \<times> ws_out list" where
  "sendResize fit readyState t =
     (case fit t of
        None \<Rightarrow> (t, [])
      | Some t' \<Rightarrow>
          (t', if readyState = OPEN then [Resize (cols t' - 1) (rows t')] else []))"

text \<open>
  \<open>fitAndSendResize\<close> reads the three refs, each of which may be \<open>null\<close>:
  \<open>fitAddon?.fit()\<close>, then \<open>ws?.readyState === WebSocket.OPEN && term\<close>. The emulator
  of \<open>termRef\<close> is the one the addon was loaded into.
\<close>

definition fitAndSendResize ::
  "(geometry \<Rightarrow> geometry option) \<Rightarrow> bool \<Rightarrow> ready_state option \<Rightarrow> geometry option
     \<Rightarrow> geometry option \<times> ws_out list" where
  "fitAndSendResize fit has_fitAddon ws term =
     (case term of
        None \<Rightarrow> (None, [])
      | Some t \<Rightarrow>
          (case (if has_fitAddon then fit t else Some t) of
             None \<Rightarrow> (Some t, [])
           | Some t' \<Rightarrow>
               (Some t', if ws = Some OPEN then [Resize (cols t' - 1) (rows t')] else [])))"

section \<open>Chat stream client\<close>

datatype Role = User | Assistant

record ChatMessage =
  role :: Role
  content :: string
  progress :: "string option"

text \<open>
  Strings are lists of 8-bit characters here. \<open>String.prototype.trim\<close> strips white
  space and line terminators from both ends; of those, the code units below 256 are
  TAB, LF, VT, FF, CR, SPACE and NBSP.
\<close>

definition is_ws :: "char \<Rightarrow> bool" where
  "is_ws c = (c = CHR 0x09 \<or> c = CHR 0x0A \<or> c = CHR 0x0B \<or> c = CHR 0x0C \<or> c = CHR 0x0D
               \<or> c = CHR 0x20 \<or> c = CHR 0xA0)"

definition trim :: "string \<Rightarrow> string" where
  "trim s = rev (dropWhile is_ws (rev (dropWhile is_ws s)))"

definition NL :: string where
  "NL = [CHR 0x0A]"

text \<open>\<open>Array.prototype.join\<close>.\<close>

fun join :: "string \<Rightarrow> string list \<Rightarrow> string" where
  "join sep [] = []"
| "join sep [x] = x"
| "join sep (x # y # ys) = x @ sep @ join sep (y # ys)"

definition CONTEXT_MESSAGE_LIMIT :: nat where
  "CONTEXT_MESSAGE_LIMIT = 20"

text \<open>\<open>xs.slice(-n)\<close> for \<open>n > 0\<close>: the last \<open>n\<close> elements, all of them when there are fewer.\<close>

definition slice_last :: "nat \<Rightarrow> 'a list \<Rightarrow> 'a list" where
  "slice_last n xs = drop (length xs - n) xs"

definition context_line :: "ChatMessage \<Rightarrow> string" where
  "context_line m =
     (if role m = User then ''User: '' @ content m else ''Assistant: '' @ content m)"

definition buildPromptWithContext :: "ChatMessage list \<Rightarrow> string \<Rightarrow> string" where
  "buildPromptWithContext messages newUserMessage =
     (if length messages = 0 then newUserMessage
      else ''Previous conversation:'' @ NL @ NL
           @ join (NL @ NL) (map context_line (slice_last CONTEXT_MESSAGE_LIMIT messages))
           @ NL @ NL @ ''User: '' @ newUserMessage)"

text \<open>
  The state of the chat component: the React state (\<open>messages\<close>, \<open>input\<close>, \<open>connected\<close>,
  \<open>streaming\<close>), the socket of \<open>wsRef\<close> (\<open>None\<close> for \<open>null\<close>, else its \<open>readyState\<close>),
  and the payloads handed to \<open>ws.send\<close>, oldest first. \<open>sendMessage\<close> reads \<open>input\<close> and
  \<open>messages\<close> as the callback closed over them at the last render, taken here as the
  current ones. Both copies of the component have the same \<open>sendMessage\<close> and
  \<open>buildPromptWithContext\<close>.
\<close>

record chat_state =
  messages :: "ChatMessage list"
  input :: string
  connected :: bool
  streaming :: bool
  wsRef :: "ready_state option"
  sent :: "string list"

definition sendMessage :: "chat_state \<Rightarrow> chat_state" where
  "sendMessage st =
     (let text = trim (input st) in
      if text = [] \<or> wsRef st = None \<or> wsRef st \<noteq> Some OPEN then st
      else st\<lparr>input := [],
              messages := messages st
                @ [\<lparr>role = User, content = text, progress = None\<rparr>,
                   \<lparr>role = Assistant, content = [], progress = None\<rparr>],
              streaming := True,
              sent := sent st @ [buildPromptWithContext (messages st) text]\<rparr>)"

text \<open>\<open>prev[prev.length - 1]\<close>, which is \<open>undefined\<close> on the empty list.\<close>

definition last_turn :: "ChatMessage list \<Rightarrow> ChatMessage option" where
  "last_turn prev = (if prev = [] then None else Some (prev ! (length prev - 1)))"

text \<open>Truthiness of \<open>last.progress\<close>: a non-empty string.\<close>

definition truthy :: "string option \<Rightarrow> bool" where
  "truthy p = (case p of None \<Rightarrow> False | Some s \<Rightarrow> s \<noteq> [])"

text \<open>The updater of \<open>appendToAssistant\<close>, with its guard \<open>if (!text) return\<close>.\<close>

definition appendToAssistant :: "string \<Rightarrow> ChatMessage list \<Rightarrow> ChatMessage list" where
  "appendToAssistant text prev =
     (if text = [] then prev
      else if length prev = 0 then [\<lparr>role = Assistant, content = text, progress = None\<rparr>]
      else
        (let l = prev ! (length prev - 1) in
         if role l \<noteq> Assistant
         then prev @ [\<lparr>role = Assistant, content = text, progress = None\<rparr>]
         else prev[length prev - 1 := l\<lparr>content := content l @ text, progress := None\<rparr>]))"

text \<open>The updaters of the \<open>done\<close>, \<open>error\<close> and \<open>progress\<close> branches.\<close>

definition on_done :: "ChatMessage list \<Rightarrow> ChatMessage list" where
  "on_done prev =
     (case last_turn prev of
        None \<Rightarrow> prev
      | Some l \<Rightarrow>
          (if role l = Assistant \<and> truthy (progress l)
           then prev[length prev - 1 := l\<lparr>progress := None\<rparr>]
           else prev))"

definition on_error :: "string \<Rightarrow> ChatMessage list \<Rightarrow> ChatMessage list" where
  "on_error e prev =
     (case last_turn prev of
        None \<Rightarrow> prev @ [\<lparr>role = Assistant, content = ''Error: '' @ e, progress = None\<rparr>]
      | Some l \<Rightarrow>
          (if role l = Assistant
           then prev[length prev - 1 :=
                  l\<lparr>content := content l @ (if content l = [] then [] else NL @ NL)
                                  @ ''Error: '' @ e,
                    progress := None\<rparr>]
           else prev @ [\<lparr>role = Assistant, content = ''Error: '' @ e, progress = None\<rparr>]))"

definition on_progress :: "string \<Rightarrow> ChatMessage list \<Rightarrow> ChatMessage list" where
  "on_progress p prev =
     (case last_turn prev of
        None \<Rightarrow> prev
      | Some l \<Rightarrow>
          (if role l = Assistant then prev[length prev - 1 := l\<lparr>progress := Some p\<rparr>]
           else prev))"

text \<open>
  \<open>ws.onmessage\<close> of the chat client with progress labels (unified JSON wire format).
  Only \<open>JSON.parse\<close> is inside the \<open>try\<close>: on \<open>null\<close> the read \<open>j.done\<close> throws a
  \<open>TypeError\<close> out of the handler, before any state update.
\<close>

datatype chat_error = TypeError

text \<open>\<open>typeof x === "string"\<close>, with the string when it holds.\<close>

fun typeof_string :: "json option \<Rightarrow> string option" where
  "typeof_string (Some (JStr s)) = Some s"
| "typeof_string _ = None"

definition chat_onmessage ::
  "(string \<Rightarrow> json option) \<Rightarrow> chat_state \<Rightarrow> ws_data \<Rightarrow> chat_error + chat_state" where
  "chat_onmessage parse st data =
     (case data of
        ArrayBuffer b \<Rightarrow> Inr st
      | Blob b \<Rightarrow> Inr st
      | Text s \<Rightarrow>
          (case parse s of
             None \<Rightarrow> Inr (st\<lparr>messages := appendToAssistant s (messages st)\<rparr>)
           | Some JNull \<Rightarrow> Inl TypeError
           | Some j \<Rightarrow>
               (if property j ''done'' = Some (JBool True)
                then Inr (st\<lparr>messages := on_done (messages st), streaming := False\<rparr>)
                else
                  (case typeof_string (property j ''error'') of
                     Some e \<Rightarrow>
                       Inr (st\<lparr>messages := on_error e (messages st), streaming := False\<rparr>)
                   | None \<Rightarrow>
                       (case typeof_string (property j ''progress'') of
                          Some p \<Rightarrow> Inr (st\<lparr>messages := on_progress p (messages st)\<rparr>)
                        | None \<Rightarrow>
                            (case typeof_string (property j ''text'') of
                               Some t \<Rightarrow>
                                 Inr (st\<lparr>messages := appendToAssistant t (messages st)\<rparr>)
                             | None \<Rightarrow> Inr st))))))"

text \<open>
  A handler that throws leaves the state as it was, and the next event is handled as
  usual.
\<close>

definition chat_step :: "(string \<Rightarrow> json option) \<Rightarrow> chat_state \<Rightarrow> ws_data \<Rightarrow> chat_state" where
  "chat_step parse st data =
     (case chat_onmessage parse st data of Inl e \<Rightarrow> st | Inr st' \<Rightarrow> st')"

subsection \<open>The chat client without progress labels (components/chat/ChatView.tsx)\<close>

text \<open>
  This copy of the component speaks the earlier wire format, in which streamed text
  arrives as raw chunks: only \<open>{done: true}\<close> and \<open>{error: string}\<close> are read as
  control frames (with \<open>j?.\<close>, so \<open>null\<close> does not throw), and every other string,
  JSON or not, is appended verbatim to the assistant turn. Its turns have no progress
  label; the field is carried along untouched.
\<close>

definition append_chunk :: "string \<Rightarrow> ChatMessage list \<Rightarrow> ChatMessage list" where
  "append_chunk s prev =
     (if length prev = 0 then [\<lparr>role = Assistant, content = s, progress = None\<rparr>]
      else
        (let l = prev ! (length prev - 1) in
         if role l \<noteq> Assistant
         then prev @ [\<lparr>role = Assistant, content = s, progress = None\<rparr>]
         else prev[length prev - 1 := l\<lparr>content := content l @ s\<rparr>]))"

definition on_error_chunked :: "string \<Rightarrow> ChatMessage list \<Rightarrow> ChatMessage list" where
  "on_error_chunked e prev =
     (case last_turn prev of
        None \<Rightarrow> prev @ [\<lparr>role = Assistant, content = ''Error: '' @ e, progress = None\<rparr>]
      | Some l \<Rightarrow>
          (if role l = Assistant
           then prev[length prev - 1 :=
                  l\<lparr>content := content l @ (if content l = [] then [] else NL @ NL)
                                  @ ''Error: '' @ e\<rparr>]
           else prev @ [\<lparr>role = Assistant, content = ''Error: '' @ e, progress = None\<rparr>]))"

definition chat_onmessage_chunked ::
  "(string \<Rightarrow> json option) \<Rightarrow> chat_state \<Rightarrow> ws_data \<Rightarrow> chat_state" where
  "chat_onmessage_chunked parse st data =
     (case data of
        ArrayBuffer b \<Rightarrow> st
      | Blob b \<Rightarrow> st
      | Text s \<Rightarrow>
          (case parse s of
             None \<Rightarrow> st\<lparr>messages := append_chunk s (messages st)\<rparr>
           | Some j \<Rightarrow>
               (if property j ''done'' = Some (JBool True) then st\<lparr>streaming := False\<rparr>
                else
                  (case typeof_string (property j ''error'') of
                     Some e \<Rightarrow>
                       st\<lparr>messages := on_error_chunked e (messages st), streaming := False\<rparr>
                   | None \<Rightarrow> st\<lparr>messages := append_chunk s (messages st)\<rparr>))))"

section \<open>Session registry (the \<open>App\<close> component)\<close>

text \<open>
  The React state the callbacks update. \<open>closeSession\<close> first awaits the backend's
  \<open>deleteSession\<close>; when that rejects, the \<open>catch\<close> logs and no state is touched
  (\<open>deleted = False\<close>). The three updates after the \<open>await\<close> are functional updaters:
  each gets the state current at that moment (\<open>prev\<close>, \<open>m\<close>). The \<open>groups\<close> read
  inside the \<open>setActiveTabId\<close> updater is not that state: it is the value the callback
  closed over at the render that created it (\<open>useCallback\<close> with dependency \<open>groups\<close>),
  before the \<open>await\<close>. It is the argument \<open>closed_groups\<close>, and differs from the current
  groups when another update of the registry landed in between.
\<close>

record registry =
  groups :: "TerminalGroup list"
  activeTabId :: "string option"
  maximizedSession :: "string option"

definition closeSession ::
  "bool \<Rightarrow> string \<Rightarrow> TerminalGroup list \<Rightarrow> registry \<Rightarrow> registry" where
  "closeSession deleted sessionId closed_groups r =
     (if deleted then
        r\<lparr>groups :=
            map (\<lambda>g. g\<lparr>sessions := filter (\<lambda>s. id_session s \<noteq> sessionId) (sessions g)\<rparr>)
              (groups r),
          activeTabId :=
            (if activeTabId r \<noteq> Some sessionId then activeTabId r
             else
               (case filter (\<lambda>s. id_session s \<noteq> sessionId)
                       (concat (map sessions closed_groups)) of
                  [] \<Rightarrow> None
                | s # rest \<Rightarrow> Some (id_session s))),
          maximizedSession :=
            (if maximizedSession r = Some sessionId then None else maximizedSession r)\<rparr>
      else r)"

definition toggleMaximize :: "string \<Rightarrow> registry \<Rightarrow> registry" where
  "toggleMaximize sessionId r =
     r\<lparr>maximizedSession :=
         (if maximizedSession r = Some sessionId then None else Some sessionId)\<rparr>"

definition setSessionState :: "string \<Rightarrow> ToolType \<Rightarrow> TerminalStatus \<Rightarrow> registry \<Rightarrow> registry" where
  "setSessionState sessionId tool' status' r =
     r\<lparr>groups :=
         map (\<lambda>g. g\<lparr>sessions :=
                      map (\<lambda>s. if id_session s = sessionId then s\<lparr>tool := tool', status := status'\<rparr> else s)
                        (sessions g)\<rparr>)
           (groups r)\<rparr>"

text \<open>All sessions of the registry, in display order: \<open>groups.flatMap((g) => g.sessions)\<close>.\<close>

definition all_sessions :: "registry \<Rightarrow> TerminalSession list" where
  "all_sessions r = concat (map sessions (groups r))"

section \<open>Concrete inputs\<close>

text \<open>
  Frames as the backend sends them, with the values \<open>JSON.parse\<close> gives for them, and
  small states of each component. The instances below evaluate the handlers on these.
\<close>

definition frame_running :: string where
  \<open>frame_running = ''{"type":"running","tool":"claude"}''\<close>

definition frame_exited_0 :: string where
  \<open>frame_exited_0 = ''{"type":"exited","tool":"claude","exit_code":0}''\<close>

definition frame_exited_1 :: string where
  \<open>frame_exited_1 = ''{"type":"exited","tool":"claude","exit_code":1}''\<close>

definition frame_exited :: string where
  \<open>frame_exited = ''{"type":"exited","tool":"claude"}''\<close>

definition frame_progress :: string where
  \<open>frame_progress = ''{"progress":"Thinking..."}''\<close>

definition frame_progress_empty :: string where
  \<open>frame_progress_empty = ''{"progress":""}''\<close>

definition frame_text :: string where
  \<open>frame_text = ''{"text":"Hi"}''\<close>

definition frame_text_empty :: string where
  \<open>frame_text_empty = ''{"text":""}''\<close>

definition frame_done :: string where
  \<open>frame_done = ''{"done":true}''\<close>

definition frame_error :: string where
  \<open>frame_error = ''{"error":"timeout"}''\<close>

definition example_parse :: "string \<Rightarrow> json option" where
  "example_parse s =
     (if s = frame_running
        then Some (JObj [(''type'', JStr ''running''), (''tool'', JStr ''claude'')])
      else if s = frame_exited_0
        then Some (JObj [(''type'', JStr ''exited''), (''tool'', JStr ''claude''),
                         (''exit_code'', JNum 0)])
      else if s = frame_exited_1
        then Some (JObj [(''type'', JStr ''exited''), (''tool'', JStr ''claude''),
                         (''exit_code'', JNum 1)])
      else if s = frame_exited
        then Some (JObj [(''type'', JStr ''exited''), (''tool'', JStr ''claude'')])
      else if s = frame_progress then Some (JObj [(''progress'', JStr ''Thinking...'')])
      else if s = frame_text then Some (JObj [(''text'', JStr ''Hi'')])
      else if s = frame_text_empty then Some (JObj [(''text'', JStr [])])
      else if s = frame_done then Some (JObj [(''done'', JBool True)])
      else if s = frame_error then Some (JObj [(''error'', JStr ''timeout'')])
      else if s = frame_progress_empty then Some (JObj [(''progress'', JStr [])])
      else if s = ''null'' then Some JNull
      else None)"


definition example_fit :: "geometry \<Rightarrow> geometry option" where
  "example_fit t = Some (t\<lparr>cols := 80, rows := 24\<rparr>)"

definition example_turns :: "ChatMessage list" where
  "example_turns =
     [\<lparr>role = User, content = ''hello'', progress = None\<rparr>,
      \<lparr>role = Assistant, content = ''Hi'', progress = None\<rparr>]"

definition example_chat :: "ChatMessage list \<Rightarrow> string \<Rightarrow> chat_state" where
  "example_chat ms inp =
     \<lparr>messages = ms, input = inp, connected = True, streaming = False,
      wsRef = Some OPEN, sent = []\<rparr>"

definition placeholder_turns :: "ChatMessage list" where
  "placeholder_turns =
     [\<lparr>role = User, content = ''hello'', progress = None\<rparr>,
      \<lparr>role = Assistant, content = [], progress = None\<rparr>]"

definition labelled_turns :: "ChatMessage list" where
  "labelled_turns =
     [\<lparr>role = User, content = ''hello'', progress = None\<rparr>,
      \<lparr>role = Assistant, content = [], progress = Some ''Thinking...''\<rparr>]"

definition example_session :: "string \<Rightarrow> TerminalSession" where
  "example_session i =
     \<lparr>id_session = i, name = ''Terminal'', group = ''default'', tool = Generic,
      status = Running, command = ''generic'', cwd = ''/tmp'', startedAt = 1000,
      createdAt = Some 1\<rparr>"

text \<open>Three sessions \<open>a\<close>, \<open>b\<close>, \<open>c\<close>; tab \<open>b\<close> is the active one and \<open>c\<close> was
  maximized from the grid (\<open>toggleMaximize\<close> does not change the active tab).\<close>

definition example_registry :: registry where
  "example_registry =
     \<lparr>groups =
        [\<lparr>id_group = ''default'', label = ''CLI'', color = ''#64748b'',
          sessions = [example_session ''a'', example_session ''b'', example_session ''c''],
          collapsed = None\<rparr>],
      activeTabId = Some ''b'', maximizedSession = Some ''c''\<rparr>"

text \<open>The same three sessions on first load: \<open>a\<close> is active, none is maximized.\<close>

definition loaded_registry :: registry where
  "loaded_registry = example_registry\<lparr>activeTabId := Some ''a'', maximizedSession := None\<rparr>"

section \<open>Terminal stream client: one reset, before the first payload\<close>

lemma reset_once_simps:
  "dumpReceived (reset_once c) = True"
  "surface (reset_once c) = surface c @ (if dumpReceived c then [] else [Reset])"
  "pending (reset_once c) = pending c"
  "reported (reset_once c) = reported c"
  by (simp_all add: reset_once_def)

lemma term_write_simps:
  "dumpReceived (term_write w c) = dumpReceived c"
  "surface (term_write w c) = surface c @ [w]"
  "pending (term_write w c) = pending c"
  "reported (term_write w c) = reported c"
  by (simp_all add: term_write_def)









section \<open>Terminal stream client: session-state notifications\<close>

lemma session_state_Some:
  assumes "parse s = Some msg"
    and "property msg ''type'' = Some (JStr t)"
    and "t = ''running'' \<or> t = ''exited''"
  shows "session_state parse s = Some msg"
proof -
  from assms(2) have "msg \<noteq> JNull" by auto
  with assms show ?thesis
    by (cases msg) (auto simp: session_state_def)
qed

text \<open>
  C2. For a control frame whose \<open>type\<close> is \<open>running\<close> or \<open>exited\<close>, the handler
  makes one call to the session-state callback, with the frame's tool and the status:
  \<open>Running\<close> for \<open>running\<close>; \<open>Stopped\<close> for \<open>exited\<close> with \<open>exit_code\<close> the number 0;
  \<open>Error\<close> for \<open>exited\<close> with any other or no \<open>exit_code\<close>.
\<close>

theorem C2_status_mapping:
  assumes "parse s = Some msg"
    and "property msg ''type'' = Some (JStr t)"
    and "t = ''running'' \<or> t = ''exited''"
  shows "\<exists>st. reported (onmessage parse True c (Text s)) =
              reported c @ [(property msg ''tool'', st)]
          \<and> (t = ''running'' \<longrightarrow> st = Running)
          \<and> (t = ''exited'' \<and> property msg ''exit_code'' = Some (JNum 0) \<longrightarrow> st = Stopped)
          \<and> (t = ''exited'' \<and> property msg ''exit_code'' \<noteq> Some (JNum 0) \<longrightarrow> st = Error)"
proof -
  have "session_state parse s = Some msg"
    using assms by (rule session_state_Some)
  then have "reported (onmessage parse True c (Text s)) =
      reported c @ [(property msg ''tool'', status_of msg)]"
    by (simp add: onmessage_def)
  moreover have "t = ''running'' \<longrightarrow> status_of msg = Running"
    using assms(2) by (simp add: status_of_def)
  moreover have "t = ''exited'' \<and> property msg ''exit_code'' = Some (JNum 0)
      \<longrightarrow> status_of msg = Stopped"
    using assms(2) by (simp add: status_of_def)
  moreover have "t = ''exited'' \<and> property msg ''exit_code'' \<noteq> Some (JNum 0)
      \<longrightarrow> status_of msg = Error"
    using assms(2) by (simp add: status_of_def)
  ultimately show ?thesis by blast
qed

lemma example_parse_exited_0:
  "example_parse frame_exited_0 =
     Some (JObj [(''type'', JStr ''exited''), (''tool'', JStr ''claude''),
                 (''exit_code'', JNum 0)])"
  by (simp add: example_parse_def frame_exited_0_def frame_running_def)

theorem C2_status_mapping_witness:
  "\<exists>st. reported (onmessage example_parse True term_init (Text frame_exited_0)) =
          [(Some (JStr ''claude''), st)] \<and> st = Stopped"
  using C2_status_mapping [of example_parse frame_exited_0
      "JObj [(''type'', JStr ''exited''), (''tool'', JStr ''claude''), (''exit_code'', JNum 0)]"
      "''exited''" term_init]
  by (simp add: example_parse_exited_0 term_init_def)

lemma example_status_running:
  "reported (onmessage example_parse True term_init (Text frame_running)) =
     [(Some (JStr ''claude''), Running)]"
  by (simp add: onmessage_def session_state_def status_of_def example_parse_def
      frame_running_def term_init_def)

lemma example_status_nonzero:
  "reported (onmessage example_parse True term_init (Text frame_exited_1)) =
     [(Some (JStr ''claude''), Error)]"
  by (simp add: onmessage_def session_state_def status_of_def example_parse_def
      frame_running_def frame_exited_0_def frame_exited_1_def term_init_def)

lemma example_status_absent:
  "reported (onmessage example_parse True term_init (Text frame_exited)) =
     [(Some (JStr ''claude''), Error)]"
  by (simp add: onmessage_def session_state_def status_of_def example_parse_def
      frame_running_def frame_exited_0_def frame_exited_1_def frame_exited_def term_init_def)

text \<open>
  C10. A \<open>running\<close>/\<open>exited\<close> control frame that arrives while the dump has not been
  received returns before the reset logic: the flag stays clear, the surface and the
  pending reads are as they were. The first binary frame after it still resets the
  surface once and is then written, whether it comes as an \<open>ArrayBuffer\<close> or as a
  \<open>Blob\<close> whose read resolves.
\<close>

theorem C10_control_frame_before_dump:
  assumes "parse s = Some msg"
    and "property msg ''type'' = Some (JStr t)"
    and "t = ''running'' \<or> t = ''exited''"
    and "\<not> dumpReceived c"
  shows "\<not> dumpReceived (onmessage parse has_cb c (Text s))
       \<and> surface (onmessage parse has_cb c (Text s)) = surface c
       \<and> pending (onmessage parse has_cb c (Text s)) = pending c
       \<and> surface (onmessage parse has_cb (onmessage parse has_cb c (Text s)) (ArrayBuffer b)) =
           surface c @ [Reset, Write_bytes b]
       \<and> surface (blob_read
             (onmessage parse has_cb (onmessage parse has_cb c (Text s)) (Blob b))
             (length (pending c))) =
           surface c @ [Reset, Write_bytes b]"
proof -
  have ss: "session_state parse s = Some msg"
    using assms(1-3) by (rule session_state_Some)
  define c1 where "c1 = onmessage parse has_cb c (Text s)"
  have c1: "dumpReceived c1 = dumpReceived c" "surface c1 = surface c" "pending c1 = pending c"
    using ss by (simp_all add: c1_def onmessage_def)
  have ab: "surface (onmessage parse has_cb c1 (ArrayBuffer b)) = surface c @ [Reset, Write_bytes b]"
    using c1 assms(4) by (simp add: onmessage_def reset_once_simps term_write_simps)
  have bl: "surface (blob_read (onmessage parse has_cb c1 (Blob b)) (length (pending c))) =
      surface c @ [Reset, Write_bytes b]"
    using c1 assms(4)
    by (simp add: onmessage_def blob_read_def reset_once_simps term_write_simps)
  show ?thesis using c1 ab bl assms(4) by (simp add: c1_def)
qed

lemma example_parse_running:
  "example_parse frame_running =
     Some (JObj [(''type'', JStr ''running''), (''tool'', JStr ''claude'')])"
  by (simp add: example_parse_def)

theorem C10_control_frame_before_dump_witness:
  "\<not> dumpReceived (onmessage example_parse True term_init (Text frame_running))
   \<and> surface (onmessage example_parse True term_init (Text frame_running)) = []
   \<and> surface (onmessage example_parse True
         (onmessage example_parse True term_init (Text frame_running))
         (ArrayBuffer [72, 73])) = [Reset, Write_bytes [72, 73]]"
  using C10_control_frame_before_dump [of example_parse frame_running
      "JObj [(''type'', JStr ''running''), (''tool'', JStr ''claude'')]" "''running''" term_init
      True "[72, 73]"]
  by (simp add: example_parse_running term_init_def)

section \<open>Geometry\<close>

text \<open>
  C8. Both resize senders emit at most one frame. A frame they emit is a resize frame
  carrying the emulator's column count after the fit minus one and its row count
  unchanged, and it is emitted only when the socket is open; when the socket is open and
  the fit does not throw, the frame is emitted.
\<close>

theorem C8_resize_one_column_margin:
  "(f \<in> set (snd (sendResize fit rs t)) \<longrightarrow>
      rs = OPEN \<and> (\<exists>t'. fit t = Some t' \<and> f = Resize (cols t' - 1) (rows t')))
   \<and> (f \<in> set (snd (fitAndSendResize fit has_fitAddon ws term)) \<longrightarrow>
      ws = Some OPEN \<and>
      (\<exists>t0 t'. term = Some t0 \<and> (if has_fitAddon then fit t0 else Some t0) = Some t'
         \<and> f = Resize (cols t' - 1) (rows t')))
   \<and> length (snd (sendResize fit rs t)) \<le> 1
   \<and> length (snd (fitAndSendResize fit has_fitAddon ws term)) \<le> 1
   \<and> (fit t = Some t1 \<longrightarrow>
        snd (sendResize fit OPEN t) = [Resize (cols t1 - 1) (rows t1)]
      \<and> snd (fitAndSendResize fit True (Some OPEN) (Some t)) = [Resize (cols t1 - 1) (rows t1)])"
  by (auto simp: sendResize_def fitAndSendResize_def split: option.splits if_splits)

theorem C8_resize_one_column_margin_witness:
  "snd (sendResize example_fit OPEN \<lparr>cols = 100, rows = 30\<rparr>) = [Resize 79 24]
   \<and> snd (fitAndSendResize example_fit True (Some OPEN) (Some \<lparr>cols = 100, rows = 30\<rparr>)) =
       [Resize 79 24]
   \<and> snd (sendResize example_fit CLOSED \<lparr>cols = 100, rows = 30\<rparr>) = []"
  using C8_resize_one_column_margin [of "Resize 79 24" example_fit OPEN
      "\<lparr>cols = 100, rows = 30\<rparr>" True "Some OPEN" "Some \<lparr>cols = 100, rows = 30\<rparr>"
      "\<lparr>cols = 80, rows = 24\<rparr>"]
  by (simp add: example_fit_def sendResize_def)

section \<open>Chat stream client: sending\<close>

lemma slice_last_length: "length (slice_last n xs) = min n (length xs)"
  by (simp add: slice_last_def)

lemma slice_last_suffix: "take (length xs - n) xs @ slice_last n xs = xs"
  by (simp add: slice_last_def)

lemma sendMessage_open:
  assumes "wsRef st = Some OPEN" and "trim (input st) \<noteq> []"
  shows "sendMessage st =
     st\<lparr>input := [],
        messages := messages st
          @ [\<lparr>role = User, content = trim (input st), progress = None\<rparr>,
             \<lparr>role = Assistant, content = [], progress = None\<rparr>],
        streaming := True,
        sent := sent st @ [buildPromptWithContext (messages st) (trim (input st))]\<rparr>"
  using assms by (simp add: sendMessage_def Let_def)

text \<open>
  C3. On a send that goes out (socket open, trimmed input not empty): with no prior
  turn the payload is exactly the trimmed input; with \<open>n > 0\<close> prior turns it is the
  heading, then the last \<open>min 20 n\<close> turns in their order, one line each with its role
  label in front, lines separated by a blank line, then after a blank line the new
  message on a \<open>User:\<close> line.
\<close>

theorem C3_context_window:
  assumes "wsRef st = Some OPEN" and "trim (input st) \<noteq> []"
    and "recent = drop (length (messages st) - min 20 (length (messages st))) (messages st)"
  shows "(messages st = [] \<longrightarrow> sent (sendMessage st) = sent st @ [trim (input st)])
       \<and> (messages st \<noteq> [] \<longrightarrow>
            sent (sendMessage st) =
              sent st
                @ [''Previous conversation:'' @ NL @ NL
                   @ join (NL @ NL)
                       (map (\<lambda>m. (if role m = User then ''User: '' else ''Assistant: '')
                                   @ content m) recent)
                   @ NL @ NL @ ''User: '' @ trim (input st)])
       \<and> length recent = min 20 (length (messages st))
       \<and> take (length (messages st) - length recent) (messages st) @ recent = messages st"
proof -
  have k: "length (messages st) - min 20 (length (messages st)) = length (messages st) - 20"
    by arith
  have r: "recent = slice_last CONTEXT_MESSAGE_LIMIT (messages st)"
    using assms(3) unfolding k by (simp add: slice_last_def CONTEXT_MESSAGE_LIMIT_def)
  have ln: "map context_line recent =
      map (\<lambda>m. (if role m = User then ''User: '' else ''Assistant: '') @ content m) recent"
    by (simp add: context_line_def)
  have snt: "sent (sendMessage st) =
      sent st @ [buildPromptWithContext (messages st) (trim (input st))]"
    using assms(1,2) by (simp add: sendMessage_open)
  have e: "messages st = [] \<longrightarrow> sent (sendMessage st) = sent st @ [trim (input st)]"
    using snt by (simp add: buildPromptWithContext_def)
  have n: "messages st \<noteq> [] \<longrightarrow>
      buildPromptWithContext (messages st) (trim (input st)) =
        ''Previous conversation:'' @ NL @ NL
          @ join (NL @ NL)
              (map (\<lambda>m. (if role m = User then ''User: '' else ''Assistant: '') @ content m)
                 recent)
          @ NL @ NL @ ''User: '' @ trim (input st)"
    unfolding buildPromptWithContext_def r [symmetric] ln by simp
  have l: "length recent = min 20 (length (messages st))"
    using assms(3) by simp
  have t: "take (length (messages st) - length recent) (messages st) @ recent = messages st"
    using assms(3) by simp
  show ?thesis using e n snt l t by simp
qed

lemma trim_example: "trim ''  how are you? '' = ''how are you?''"
  by (simp add: trim_def is_ws_def)

theorem C3_context_window_witness:
  "sent (sendMessage (example_chat example_turns ''  how are you? '')) =
     [''Previous conversation:'' @ NL @ NL @ ''User: hello'' @ NL @ NL @ ''Assistant: Hi''
        @ NL @ NL @ ''User: how are you?'']
   \<and> sent (sendMessage (example_chat [] ''  how are you? '')) = [''how are you?'']"
proof -
  have a: "sent (sendMessage (example_chat example_turns ''  how are you? '')) =
     [''Previous conversation:'' @ NL @ NL @ ''User: hello'' @ NL @ NL @ ''Assistant: Hi''
        @ NL @ NL @ ''User: how are you?'']"
    using C3_context_window [of "example_chat example_turns ''  how are you? ''" example_turns]
    by (simp add: example_chat_def example_turns_def trim_example)
  have b: "sent (sendMessage (example_chat [] ''  how are you? '')) = [''how are you?'']"
    using C3_context_window [of "example_chat [] ''  how are you? ''" "[]"]
    by (simp add: example_chat_def trim_example)
  show ?thesis using a b by simp
qed

text \<open>
  C6. Sending does nothing at all (same messages, nothing handed to the socket, every
  other field as it was) when the socket is missing or not open, or when the input is
  empty after trimming. Otherwise it appends a user turn with the trimmed text and right
  after it an empty assistant turn, and hands exactly one payload to the socket.
\<close>

theorem C6_send_noop_or_append:
  "(wsRef st \<noteq> Some OPEN \<or> trim (input st) = [] \<longrightarrow> sendMessage st = st)
   \<and> (wsRef st = Some OPEN \<and> trim (input st) \<noteq> [] \<longrightarrow>
        messages (sendMessage st) =
          messages st
            @ [\<lparr>role = User, content = trim (input st), progress = None\<rparr>,
               \<lparr>role = Assistant, content = [], progress = None\<rparr>]
        \<and> sent (sendMessage st) =
            sent st @ [buildPromptWithContext (messages st) (trim (input st))]
        \<and> length (sent (sendMessage st)) = length (sent st) + 1)"
proof -
  have a: "wsRef st \<noteq> Some OPEN \<or> trim (input st) = [] \<longrightarrow> sendMessage st = st"
    by (auto simp: sendMessage_def Let_def)
  have b: "wsRef st = Some OPEN \<and> trim (input st) \<noteq> [] \<longrightarrow>
        messages (sendMessage st) =
          messages st
            @ [\<lparr>role = User, content = trim (input st), progress = None\<rparr>,
               \<lparr>role = Assistant, content = [], progress = None\<rparr>]
        \<and> sent (sendMessage st) =
            sent st @ [buildPromptWithContext (messages st) (trim (input st))]
        \<and> length (sent (sendMessage st)) = length (sent st) + 1"
    by (simp add: sendMessage_open)
  show ?thesis using a b by blast
qed

lemma trim_blank: "trim ''   '' = []"
  by (simp add: trim_def is_ws_def)

theorem C6_send_noop_or_append_witness:
  "sendMessage (example_chat example_turns ''   '') = example_chat example_turns ''   ''
   \<and> sendMessage ((example_chat example_turns ''hi'')\<lparr>wsRef := Some CLOSED\<rparr>) =
       (example_chat example_turns ''hi'')\<lparr>wsRef := Some CLOSED\<rparr>
   \<and> messages (sendMessage (example_chat [] ''  how are you? '')) =
       [\<lparr>role = User, content = ''how are you?'', progress = None\<rparr>,
        \<lparr>role = Assistant, content = [], progress = None\<rparr>]
   \<and> length (sent (sendMessage (example_chat [] ''  how are you? ''))) = 1"
proof -
  have a: "sendMessage (example_chat example_turns ''   '') = example_chat example_turns ''   ''"
    using C6_send_noop_or_append [of "example_chat example_turns ''   ''"]
    by (simp add: example_chat_def trim_blank)
  have b: "sendMessage ((example_chat example_turns ''hi'')\<lparr>wsRef := Some CLOSED\<rparr>) =
       (example_chat example_turns ''hi'')\<lparr>wsRef := Some CLOSED\<rparr>"
    using C6_send_noop_or_append [of "(example_chat example_turns ''hi'')\<lparr>wsRef := Some CLOSED\<rparr>"]
    by (simp add: example_chat_def)
  have c: "messages (sendMessage (example_chat [] ''  how are you? '')) =
       [\<lparr>role = User, content = ''how are you?'', progress = None\<rparr>,
        \<lparr>role = Assistant, content = [], progress = None\<rparr>]
     \<and> length (sent (sendMessage (example_chat [] ''  how are you? ''))) = 1"
    using C6_send_noop_or_append [of "example_chat [] ''  how are you? ''"]
    by (simp add: example_chat_def trim_example)
  show ?thesis using a b c by simp
qed

section \<open>Chat stream client: inbound frames\<close>

lemma last_turn_snoc: "last_turn (pre @ [l]) = Some l"
  by (simp add: last_turn_def)

lemma update_last_snoc: "(pre @ [l])[length (pre @ [l]) - 1 := x] = pre @ [x]"
  by simp

lemma on_error_snoc:
  "role l = Assistant \<Longrightarrow>
   on_error e (pre @ [l]) =
     pre @ [l\<lparr>content := content l @ (if content l = [] then [] else NL @ NL) @ ''Error: '' @ e,
              progress := None\<rparr>]"
  unfolding on_error_def last_turn_snoc update_last_snoc by simp

lemma on_error_new:
  "ms = [] \<or> role (last ms) = User \<Longrightarrow>
   on_error e ms = ms @ [\<lparr>role = Assistant, content = ''Error: '' @ e, progress = None\<rparr>]"
  by (auto simp: on_error_def last_turn_def last_conv_nth)

lemma error_frame_handled:
  assumes "parse s = Some j"
    and "property j ''done'' \<noteq> Some (JBool True)"
    and "property j ''error'' = Some (JStr e)"
  shows "chat_onmessage parse st (Text s) =
     Inr (st\<lparr>messages := on_error e (messages st), streaming := False\<rparr>)"
proof -
  from assms(3) have "j \<noteq> JNull" by auto
  with assms show ?thesis
    by (cases j) (simp_all add: chat_onmessage_def)
qed

text \<open>
  C4. An \<open>{error: string}\<close> frame (one that is not also \<open>{done: true}\<close>, which the
  handler tests first) is handled without an exception; it sets the streaming flag to
  false and touches no field but the messages. When the last turn is an assistant turn,
  \<open>Error: \<close> and the message are appended to its content, after a blank line when the
  content was not empty, and its progress label is cleared; an empty assistant placeholder
  so gets exactly \<open>Error: \<close> and the message. When there is no turn or the last one is a
  user turn, a new assistant turn with that content and no label is added.
\<close>

theorem C4_error_frame:
  assumes "parse s = Some j"
    and "property j ''done'' \<noteq> Some (JBool True)"
    and "property j ''error'' = Some (JStr e)"
  shows "chat_onmessage parse st (Text s) = Inr (chat_step parse st (Text s))
       \<and> streaming (chat_step parse st (Text s)) = False
       \<and> (chat_step parse st (Text s))\<lparr>messages := messages st, streaming := streaming st\<rparr> = st
       \<and> (messages st = pre @ [l] \<and> role l = Assistant \<and> content l \<noteq> [] \<longrightarrow>
            messages (chat_step parse st (Text s)) =
              pre @ [l\<lparr>content := content l @ NL @ NL @ ''Error: '' @ e, progress := None\<rparr>])
       \<and> (messages st = pre @ [l] \<and> role l = Assistant \<and> content l = [] \<longrightarrow>
            messages (chat_step parse st (Text s)) =
              pre @ [l\<lparr>content := ''Error: '' @ e, progress := None\<rparr>])
       \<and> (messages st = [] \<or> role (last (messages st)) = User \<longrightarrow>
            messages (chat_step parse st (Text s)) =
              messages st @ [\<lparr>role = Assistant, content = ''Error: '' @ e, progress = None\<rparr>])"
proof -
  have h: "chat_onmessage parse st (Text s) =
      Inr (st\<lparr>messages := on_error e (messages st), streaming := False\<rparr>)"
    using assms by (rule error_frame_handled)
  then have cs: "chat_step parse st (Text s) =
      st\<lparr>messages := on_error e (messages st), streaming := False\<rparr>"
    by (simp add: chat_step_def)
  have a: "messages st = pre @ [l] \<and> role l = Assistant \<and> content l \<noteq> [] \<longrightarrow>
      on_error e (messages st) =
        pre @ [l\<lparr>content := content l @ NL @ NL @ ''Error: '' @ e, progress := None\<rparr>]"
    by (simp add: on_error_snoc)
  have b: "messages st = pre @ [l] \<and> role l = Assistant \<and> content l = [] \<longrightarrow>
      on_error e (messages st) = pre @ [l\<lparr>content := ''Error: '' @ e, progress := None\<rparr>]"
    by (simp add: on_error_snoc)
  have c: "messages st = [] \<or> role (last (messages st)) = User \<longrightarrow>
      on_error e (messages st) =
        messages st @ [\<lparr>role = Assistant, content = ''Error: '' @ e, progress = None\<rparr>]"
    using on_error_new [of "messages st" e] by blast
  show ?thesis using h a b c by (simp add: cs)
qed

lemma example_parse_error:
  "example_parse frame_error = Some (JObj [(''error'', JStr ''timeout'')])"
  by (simp add: example_parse_def frame_error_def frame_running_def frame_exited_0_def
      frame_exited_1_def frame_exited_def frame_progress_def frame_text_def
      frame_text_empty_def frame_done_def)

theorem C4_error_frame_witness:
  "messages (chat_step example_parse
      ((example_chat placeholder_turns [])\<lparr>streaming := True\<rparr>) (Text frame_error)) =
     [\<lparr>role = User, content = ''hello'', progress = None\<rparr>,
      \<lparr>role = Assistant, content = ''Error: timeout'', progress = None\<rparr>]
   \<and> streaming (chat_step example_parse
        ((example_chat placeholder_turns [])\<lparr>streaming := True\<rparr>) (Text frame_error)) = False"
  using C4_error_frame [of example_parse frame_error "JObj [(''error'', JStr ''timeout'')]"
      "''timeout''" "(example_chat placeholder_turns [])\<lparr>streaming := True\<rparr>"
      "[\<lparr>role = User, content = ''hello'', progress = None\<rparr>]"
      "\<lparr>role = Assistant, content = [], progress = None\<rparr>"]
  by (simp add: example_parse_error example_chat_def placeholder_turns_def)

section \<open>Chat stream client: the progress label\<close>

lemma on_progress_snoc:
  "role l = Assistant \<Longrightarrow> on_progress p (pre @ [l]) = pre @ [l\<lparr>progress := Some p\<rparr>]"
  unfolding on_progress_def last_turn_snoc update_last_snoc by simp

lemma on_progress_dropped: "ms = [] \<or> role (last ms) = User \<Longrightarrow> on_progress p ms = ms"
  by (auto simp: on_progress_def last_turn_def last_conv_nth)

lemma on_progress_content: "map content (on_progress p ms) = map content ms"
proof (cases ms rule: rev_cases)
  case Nil
  then show ?thesis by (simp add: on_progress_dropped)
next
  case (snoc pre l)
  show ?thesis
  proof (cases "role l")
    case User
    with snoc show ?thesis by (simp add: on_progress_dropped)
  next
    case Assistant
    with snoc show ?thesis by (simp add: on_progress_snoc)
  qed
qed

lemma on_done_snoc:
  "role l = Assistant \<Longrightarrow> progress l = Some q \<Longrightarrow> q \<noteq> [] \<Longrightarrow>
   on_done (pre @ [l]) = pre @ [l\<lparr>progress := None\<rparr>]"
  unfolding on_done_def last_turn_snoc update_last_snoc by (simp add: truthy_def)

lemma appendToAssistant_snoc:
  "role l = Assistant \<Longrightarrow> t \<noteq> [] \<Longrightarrow>
   appendToAssistant t (pre @ [l]) = pre @ [l\<lparr>content := content l @ t, progress := None\<rparr>]"
  by (simp add: appendToAssistant_def Let_def)

lemma progress_frame_handled:
  assumes "parse s = Some j"
    and "property j ''done'' \<noteq> Some (JBool True)"
    and "typeof_string (property j ''error'') = None"
    and "property j ''progress'' = Some (JStr p)"
  shows "chat_onmessage parse st (Text s) = Inr (st\<lparr>messages := on_progress p (messages st)\<rparr>)"
proof -
  from assms(4) have "j \<noteq> JNull" by auto
  with assms show ?thesis
    by (cases j) (simp_all add: chat_onmessage_def)
qed

lemma done_frame_handled:
  assumes "parse s = Some j" and "property j ''done'' = Some (JBool True)"
  shows "chat_onmessage parse st (Text s) =
     Inr (st\<lparr>messages := on_done (messages st), streaming := False\<rparr>)"
proof -
  from assms(2) have "j \<noteq> JNull" by auto
  with assms show ?thesis
    by (cases j) (simp_all add: chat_onmessage_def)
qed

lemma text_frame_handled:
  assumes "parse s = Some j"
    and "property j ''done'' \<noteq> Some (JBool True)"
    and "typeof_string (property j ''error'') = None"
    and "typeof_string (property j ''progress'') = None"
    and "property j ''text'' = Some (JStr t)"
  shows "chat_onmessage parse st (Text s) =
     Inr (st\<lparr>messages := appendToAssistant t (messages st)\<rparr>)"
proof -
  from assms(5) have "j \<noteq> JNull" by auto
  with assms show ?thesis
    by (cases j) (simp_all add: chat_onmessage_def)
qed

text \<open>
  C5, as the client with progress labels does it. A \<open>{progress: string}\<close> frame
  (frame \<open>sp\<close>: not \<open>{done: true}\<close>, no string \<open>error\<close>) is handled without an
  exception and changes no turn's content and no other field: it sets the label of the
  last turn when that is an assistant turn, and changes nothing when there is no turn or
  the last one is a user turn. When the last turn is an assistant turn carrying a
  non-empty label, a \<open>{done: true}\<close> frame (\<open>sd\<close>) clears the label, and a \<open>{text}\<close>
  frame (\<open>sx\<close>) whose text is not empty clears it while appending the text.
\<close>

theorem C5_progress_label:
  assumes "parse sp = Some jp"
    and "property jp ''done'' \<noteq> Some (JBool True)"
    and "typeof_string (property jp ''error'') = None"
    and "property jp ''progress'' = Some (JStr p)"
    and "parse sd = Some jd"
    and "property jd ''done'' = Some (JBool True)"
    and "parse sx = Some jx"
    and "property jx ''done'' \<noteq> Some (JBool True)"
    and "typeof_string (property jx ''error'') = None"
    and "typeof_string (property jx ''progress'') = None"
    and "property jx ''text'' = Some (JStr t)"
    and "t \<noteq> []"
    and "messages st1 = pre @ [l]"
    and "role l = Assistant"
    and "progress l = Some q"
    and "q \<noteq> []"
  shows "chat_onmessage parse st (Text sp) = Inr (chat_step parse st (Text sp))
       \<and> map content (messages (chat_step parse st (Text sp))) = map content (messages st)
       \<and> (chat_step parse st (Text sp))\<lparr>messages := messages st\<rparr> = st
       \<and> (messages st = pre0 @ [l0] \<and> role l0 = Assistant \<longrightarrow>
            messages (chat_step parse st (Text sp)) = pre0 @ [l0\<lparr>progress := Some p\<rparr>])
       \<and> (messages st = [] \<or> role (last (messages st)) = User \<longrightarrow>
            chat_step parse st (Text sp) = st)
       \<and> messages (chat_step parse st1 (Text sd)) = pre @ [l\<lparr>progress := None\<rparr>]
       \<and> messages (chat_step parse st1 (Text sx)) =
           pre @ [l\<lparr>content := content l @ t, progress := None\<rparr>]"
proof -
  have hp: "chat_onmessage parse st (Text sp) =
      Inr (st\<lparr>messages := on_progress p (messages st)\<rparr>)"
    using assms(1-4) by (rule progress_frame_handled)
  then have sp: "chat_step parse st (Text sp) = st\<lparr>messages := on_progress p (messages st)\<rparr>"
    by (simp add: chat_step_def)
  have a: "map content (messages (chat_step parse st (Text sp))) = map content (messages st)"
    by (simp add: sp on_progress_content)
  have b: "messages st = pre0 @ [l0] \<and> role l0 = Assistant \<longrightarrow>
      messages (chat_step parse st (Text sp)) = pre0 @ [l0\<lparr>progress := Some p\<rparr>]"
    by (simp add: sp on_progress_snoc)
  have c: "messages st = [] \<or> role (last (messages st)) = User \<longrightarrow>
      chat_step parse st (Text sp) = st"
    using on_progress_dropped [of "messages st" p] by (auto simp: sp)
  have "chat_onmessage parse st1 (Text sd) =
      Inr (st1\<lparr>messages := on_done (messages st1), streaming := False\<rparr>)"
    using assms(5,6) by (rule done_frame_handled)
  then have d: "messages (chat_step parse st1 (Text sd)) = pre @ [l\<lparr>progress := None\<rparr>]"
    using assms(13-16) by (simp add: chat_step_def on_done_snoc)
  have "chat_onmessage parse st1 (Text sx) =
      Inr (st1\<lparr>messages := appendToAssistant t (messages st1)\<rparr>)"
    using assms(7-11) by (rule text_frame_handled)
  then have e: "messages (chat_step parse st1 (Text sx)) =
      pre @ [l\<lparr>content := content l @ t, progress := None\<rparr>]"
    using assms(12-14) by (simp add: chat_step_def appendToAssistant_snoc)
  show ?thesis using hp a b c d e by (simp add: sp)
qed

lemma example_parse_progress:
  "example_parse frame_progress = Some (JObj [(''progress'', JStr ''Thinking...'')])"
  by (simp add: example_parse_def frame_running_def frame_exited_0_def
      frame_exited_1_def frame_exited_def frame_progress_def)

lemma example_parse_text:
  "example_parse frame_text = Some (JObj [(''text'', JStr ''Hi'')])"
  by (simp add: example_parse_def frame_running_def frame_exited_0_def
      frame_exited_1_def frame_exited_def frame_progress_def frame_text_def)

lemma example_parse_text_empty:
  "example_parse frame_text_empty = Some (JObj [(''text'', JStr [])])"
  by (simp add: example_parse_def frame_running_def frame_exited_0_def
      frame_exited_1_def frame_exited_def frame_progress_def frame_text_def
      frame_text_empty_def)

lemma example_parse_done:
  "example_parse frame_done = Some (JObj [(''done'', JBool True)])"
  by (simp add: example_parse_def frame_running_def frame_exited_0_def
      frame_exited_1_def frame_exited_def frame_progress_def frame_text_def
      frame_text_empty_def frame_done_def)

theorem C5_progress_label_witness:
  "messages (chat_step example_parse (example_chat placeholder_turns []) (Text frame_progress)) =
     labelled_turns
   \<and> messages (chat_step example_parse (example_chat labelled_turns []) (Text frame_done)) =
       placeholder_turns
   \<and> messages (chat_step example_parse (example_chat labelled_turns []) (Text frame_text)) =
       example_turns"
  using C5_progress_label [of example_parse frame_progress
      "JObj [(''progress'', JStr ''Thinking...'')]" "''Thinking...''"
      frame_done "JObj [(''done'', JBool True)]"
      frame_text "JObj [(''text'', JStr ''Hi'')]" "''Hi''"
      "example_chat labelled_turns []"
      "[\<lparr>role = User, content = ''hello'', progress = None\<rparr>]"
      "\<lparr>role = Assistant, content = [], progress = Some ''Thinking...''\<rparr>"
      "''Thinking...''"
      "example_chat placeholder_turns []"
      "[\<lparr>role = User, content = ''hello'', progress = None\<rparr>]"
      "\<lparr>role = Assistant, content = [], progress = None\<rparr>"]
  by (simp add: example_parse_progress example_parse_done example_parse_text
      example_chat_def labelled_turns_def placeholder_turns_def example_turns_def)

lemma example_parse_progress_empty:
  "example_parse frame_progress_empty = Some (JObj [(''progress'', JStr [])])"
  by (simp add: example_parse_def frame_running_def frame_exited_0_def
      frame_exited_1_def frame_exited_def frame_progress_def frame_text_def
      frame_text_empty_def frame_done_def frame_error_def frame_progress_empty_def)

text \<open>
  The guard \<open>if (!text) return\<close> of \<open>appendToAssistant\<close>: after the progress frame has
  set the label on the placeholder turn, a \<open>{text: ""}\<close> frame leaves the label in place.
  And the \<open>done\<close> branch only resets a label that is truthy: a label set by
  \<open>{progress: ""}\<close> is still the empty string after \<open>{done: true}\<close>.
\<close>

theorem C5_empty_text_keeps_label:
  "messages (chat_step example_parse (example_chat placeholder_turns []) (Text frame_progress)) =
     labelled_turns
   \<and> messages (chat_step example_parse
        (chat_step example_parse (example_chat placeholder_turns []) (Text frame_progress))
        (Text frame_text_empty)) = labelled_turns
   \<and> progress (last labelled_turns) = Some ''Thinking...''
   \<and> progress (last (messages (chat_step example_parse
        (chat_step example_parse (example_chat placeholder_turns []) (Text frame_progress_empty))
        (Text frame_done)))) = Some []"
  by (simp add: chat_step_def chat_onmessage_def example_parse_progress
      example_parse_text_empty example_parse_progress_empty example_parse_done
      on_progress_def on_done_def truthy_def last_turn_def appendToAssistant_def
      example_chat_def labelled_turns_def placeholder_turns_def)

text \<open>
  The client without progress labels reads only \<open>done\<close> and \<open>error\<close>: any other
  frame, a \<open>{progress}\<close> frame included, is a text chunk for it and is appended to the
  content as it came.
\<close>

lemma chunked_client_appends_any_other_frame:
  assumes "parse s = Some j"
    and "property j ''done'' \<noteq> Some (JBool True)"
    and "typeof_string (property j ''error'') = None"
    and "messages st = pre @ [l]"
    and "role l = Assistant"
  shows "messages (chat_onmessage_chunked parse st (Text s)) =
     pre @ [l\<lparr>content := content l @ s\<rparr>]"
  using assms by (simp add: chat_onmessage_chunked_def append_chunk_def Let_def)

lemma chunked_client_progress_frame:
  "messages (chat_onmessage_chunked example_parse (example_chat placeholder_turns [])
      (Text frame_progress)) =
     [\<lparr>role = User, content = ''hello'', progress = None\<rparr>,
      \<lparr>role = Assistant, content = frame_progress, progress = None\<rparr>]"
  using chunked_client_appends_any_other_frame [of example_parse frame_progress
      "JObj [(''progress'', JStr ''Thinking...'')]" "example_chat placeholder_turns []"
      "[\<lparr>role = User, content = ''hello'', progress = None\<rparr>]"
      "\<lparr>role = Assistant, content = [], progress = None\<rparr>"]
  by (simp add: example_parse_progress example_chat_def placeholder_turns_def)

section \<open>Session registry\<close>





text \<open>
  Sessions \<open>a\<close>, \<open>b\<close>, \<open>c\<close> with \<open>b\<close> active and \<open>c\<close> maximized, the callback closing
  over these very groups: closing the maximized session \<open>c\<close> leaves \<open>a\<close> and \<open>b\<close>, and
  the active selection stays \<open>b\<close>; the first remaining session \<open>a\<close> is not selected.
\<close>

lemma example_registry_reached:
  "toggleMaximize ''c'' (example_registry\<lparr>maximizedSession := None\<rparr>) = example_registry"
  by (simp add: toggleMaximize_def example_registry_def)


text \<open>
  Two closes started on the same render, so that both callbacks closed over the groups
  \<open>a\<close>, \<open>b\<close>, \<open>c\<close>: the close of the active session \<open>a\<close> lands first and makes \<open>b\<close>
  active; the close of \<open>b\<close> then still filters the closed-over groups and selects \<open>a\<close>,
  which is no longer in the registry, while \<open>c\<close> is the only session left.
\<close>

lemma closeSession_stale_groups:
  "activeTabId (closeSession True ''a'' (groups loaded_registry) loaded_registry) = Some ''b''
   \<and> map id_session (all_sessions
        (closeSession True ''b'' (groups loaded_registry)
          (closeSession True ''a'' (groups loaded_registry) loaded_registry))) = [''c'']
   \<and> activeTabId
        (closeSession True ''b'' (groups loaded_registry)
          (closeSession True ''a'' (groups loaded_registry) loaded_registry)) = Some ''a''"
  by (simp add: loaded_registry_def example_registry_def example_session_def
      all_sessions_def closeSession_def)

text \<open>
  C9. \<open>setSessionState\<close> keeps the groups and the sessions in place. A session whose id
  matches gets the given tool and status and keeps every other field (id, name, group,
  command, cwd, both timestamps); a session with another id is unchanged; so are the
  other fields of each group and the two selections.
\<close>

theorem C9_setSessionState_frame:
  assumes "i < length (groups r)"
    and "k < length (sessions (groups r ! i))"
    and "r' = setSessionState sid tool' status' r"
    and "s = sessions (groups r ! i) ! k"
    and "s' = sessions (groups r' ! i) ! k"
  shows "length (groups r') = length (groups r)
       \<and> length (sessions (groups r' ! i)) = length (sessions (groups r ! i))
       \<and> (groups r' ! i)\<lparr>sessions := sessions (groups r ! i)\<rparr> = groups r ! i
       \<and> (id_session s = sid \<longrightarrow> s' = s\<lparr>tool := tool', status := status'\<rparr>)
       \<and> (id_session s \<noteq> sid \<longrightarrow> s' = s)
       \<and> s'\<lparr>tool := tool s, status := status s\<rparr> = s
       \<and> id_session s' = id_session s \<and> name s' = name s \<and> group s' = group s
       \<and> command s' = command s \<and> cwd s' = cwd s
       \<and> startedAt s' = startedAt s \<and> createdAt s' = createdAt s
       \<and> activeTabId r' = activeTabId r \<and> maximizedSession r' = maximizedSession r"
proof -
  define f where
    "f = (\<lambda>x::TerminalSession. if id_session x = sid then x\<lparr>tool := tool', status := status'\<rparr> else x)"
  have gs: "groups r' = map (\<lambda>g. g\<lparr>sessions := map f (sessions g)\<rparr>) (groups r)"
    unfolding assms(3) f_def by (simp add: setSessionState_def)
  have g: "groups r' ! i = (groups r ! i)\<lparr>sessions := map f (sessions (groups r ! i))\<rparr>"
    unfolding gs using assms(1) by simp
  have s': "s' = f s"
    unfolding assms(4,5) g using assms(2) by simp
  have sel: "activeTabId r' = activeTabId r \<and> maximizedSession r' = maximizedSession r"
    unfolding assms(3) by (simp add: setSessionState_def)
  have len: "length (groups r') = length (groups r)
      \<and> length (sessions (groups r' ! i)) = length (sessions (groups r ! i))
      \<and> (groups r' ! i)\<lparr>sessions := sessions (groups r ! i)\<rparr> = groups r ! i"
    unfolding g by (simp add: gs)
  have fld: "(id_session s = sid \<longrightarrow> f s = s\<lparr>tool := tool', status := status'\<rparr>)
      \<and> (id_session s \<noteq> sid \<longrightarrow> f s = s)
      \<and> (f s)\<lparr>tool := tool s, status := status s\<rparr> = s
      \<and> id_session (f s) = id_session s \<and> name (f s) = name s \<and> group (f s) = group s
      \<and> command (f s) = command s \<and> cwd (f s) = cwd s
      \<and> startedAt (f s) = startedAt s \<and> createdAt (f s) = createdAt s"
    by (simp add: f_def)
  show ?thesis
    using len fld sel unfolding s' by blast
qed

theorem C9_setSessionState_frame_witness:
  "sessions (groups (setSessionState ''b'' Claude Stopped example_registry) ! 0) ! 1 =
     (example_session ''b'')\<lparr>tool := Claude, status := Stopped\<rparr>
   \<and> sessions (groups (setSessionState ''b'' Claude Stopped example_registry) ! 0) ! 0 =
       example_session ''a''"
proof -
  have len: "0 < length (groups example_registry)"
    "1 < length (sessions (groups example_registry ! 0))"
    "0 < length (sessions (groups example_registry ! 0))"
    by (simp_all add: example_registry_def)
  have b: "id_session (sessions (groups example_registry ! 0) ! 1) = ''b''"
    "sessions (groups example_registry ! 0) ! 1 = example_session ''b''"
    by (simp_all add: example_registry_def example_session_def)
  have a: "id_session (sessions (groups example_registry ! 0) ! 0) \<noteq> ''b''"
    "sessions (groups example_registry ! 0) ! 0 = example_session ''a''"
    by (simp_all add: example_registry_def example_session_def)
  have "sessions (groups (setSessionState ''b'' Claude Stopped example_registry) ! 0) ! 1 =
      (example_session ''b'')\<lparr>tool := Claude, status := Stopped\<rparr>"
    using C9_setSessionState_frame [OF len(1) len(2) refl refl refl, of "''b''" Claude Stopped] b
    by simp
  moreover have "sessions (groups (setSessionState ''b'' Claude Stopped example_registry) ! 0) ! 0 =
      example_session ''a''"
    using C9_setSessionState_frame [OF len(1) len(3) refl refl refl, of "''b''" Claude Stopped] a
    by simp
  ultimately show ?thesis by simp
qed

end
